theory Spec2Isabelle
  imports Main
begin

section \<open>JavaScript values, objects and exceptions\<close>

text \<open>
  The library is generic in its payloads, so a payload is any JavaScript value. Primitives
  are compared by content, objects by reference; the objects allocated by this library are
  the instances of its four classes, which live in a heap and are named by their address.
  Finite numbers are represented by the integers (the two zeros coincide: \<open>+0 === -0\<close>),
  and \<open>NaN\<close> is a value of its own. A symbol is named by its identity.
\<close>

type_synonym addr = nat

datatype jsval =
    JUndefined
  | JNull
  | JBool bool
  | JNaN
  | JNum int
  | JStr string
  | JSymbol nat
  | JRef addr

text \<open>
  One constructor per class of \<open>index.ts\<close>, carrying the fields the class declares:
  \<open>OptionSome\<close> and \<open>ResultOk\<close> have \<open>value\<close>, \<open>ResultErr\<close> has \<open>error\<close>,
  \<open>OptionNone\<close> has no field.
\<close>

datatype obj =
    OptionSome jsval
  | OptionNone
  | ResultOk jsval
  | ResultErr jsval

text \<open>
  \<open>Error msg\<close> is the exception \<open>throw new Error(msg)\<close>; \<open>TypeError\<close> is the exception the
  language itself raises (a symbol converted to a string, a method missing on the receiver).
\<close>

datatype exn = Error string | TypeError

text \<open>
  The state is the heap of allocated objects, addressed by position, and a log of the calls
  made to caller-supplied functions (the arguments of each call, oldest first). The log is
  not part of the program: it makes "the function was invoked" observable.
\<close>

record state =
  heap :: "obj list"
  calls :: "jsval list list"

type_synonym res = "(exn + jsval) \<times> state"
type_synonym comp = "state \<Rightarrow> res"

text \<open>
  A caller-supplied function receives its arguments and the heap; it returns a value or
  throws, and may have changed the heap. It has no access to the call log.
\<close>

type_synonym fn = "jsval list \<Rightarrow> obj list \<Rightarrow> (exn + jsval) \<times> obj list"

definition init :: state where
  "init = \<lparr>heap = [], calls = []\<rparr>"

definition lookup :: "obj list \<Rightarrow> addr \<Rightarrow> obj option" where
  "lookup h a = (if a < length h then Some (h ! a) else None)"

text \<open>\<open>new C(...)\<close>: the object is placed at the first unused address.\<close>

definition new :: "obj \<Rightarrow> comp" where
  "new ob s = (Inr (JRef (length (heap s))), s\<lparr>heap := heap s @ [ob]\<rparr>)"

text \<open>\<open>mapper(args)\<close>: the call is logged, the function runs on the heap.\<close>

definition invoke :: "fn \<Rightarrow> jsval list \<Rightarrow> comp" where
  "invoke f args s =
     (case f args (heap s) of
        (r, h') \<Rightarrow> (r, \<lparr>heap = h', calls = calls s @ [args]\<rparr>))"

text \<open>\<open>return v\<close> and \<open>throw x\<close>.\<close>

definition ret :: "jsval \<Rightarrow> comp" where
  "ret v s = (Inr v, s)"

definition throw :: "exn \<Rightarrow> comp" where
  "throw x s = (Inl x, s)"

text \<open>Sequencing: an exception ends the evaluation of the expression.\<close>

definition then_do :: "comp \<Rightarrow> (jsval \<Rightarrow> comp) \<Rightarrow> comp" where
  "then_do m k s =
     (case m s of
        (Inl x, s') \<Rightarrow> (Inl x, s')
      | (Inr v, s') \<Rightarrow> k v s')"

subsection \<open>Operators of the language\<close>

text \<open>
  \<open>a === b\<close>: \<open>NaN\<close> is not equal to anything, itself included; every other primitive is
  equal to the primitives of the same type and content; two references are equal when they
  are the same address.
\<close>

fun strict_eq :: "jsval \<Rightarrow> jsval \<Rightarrow> bool" where
  "strict_eq JNaN _ = False"
| "strict_eq _ JNaN = False"
| "strict_eq a b = (a = b)"

fun truthy :: "jsval \<Rightarrow> bool" where
  "truthy JUndefined = False"
| "truthy JNull = False"
| "truthy (JBool b) = b"
| "truthy JNaN = False"
| "truthy (JNum i) = (i \<noteq> 0)"
| "truthy (JStr s) = (s \<noteq> [])"
| "truthy (JSymbol _) = True"
| "truthy (JRef _) = True"

fun show_nat :: "nat \<Rightarrow> string" where
  "show_nat n =
     (if n < 10 then [''0123456789'' ! n]
      else show_nat (n div 10) @ [''0123456789'' ! (n mod 10)])"

definition show_int :: "int \<Rightarrow> string" where
  "show_int i = (if i < 0 then CHR ''-'' # show_nat (nat (- i)) else show_nat (nat i))"

text \<open>
  The conversion applied to the right operand of \<open>string + x\<close>. A symbol cannot be converted
  and raises a \<open>TypeError\<close>. None of the four classes defines \<open>toString\<close>, \<open>valueOf\<close> or
  \<open>Symbol.toPrimitive\<close>, so an instance prints as \<open>[object Object]\<close>. Integers are printed
  in decimal, as the language does below \<open>10^21\<close>.
\<close>

fun to_string :: "jsval \<Rightarrow> exn + string" where
  "to_string JUndefined = Inr ''undefined''"
| "to_string JNull = Inr ''null''"
| "to_string (JBool b) = Inr (if b then ''true'' else ''false'')"
| "to_string JNaN = Inr ''NaN''"
| "to_string (JNum i) = Inr (show_int i)"
| "to_string (JStr s) = Inr s"
| "to_string (JSymbol _) = Inl TypeError"
| "to_string (JRef _) = Inr ''[object Object]''"

text \<open>\<open>throw new Error(prefix + x)\<close> for a string \<open>prefix\<close>.\<close>

definition throw_concat :: "string \<Rightarrow> jsval \<Rightarrow> comp" where
  "throw_concat prefix x s =
     (case to_string x of
        Inl t \<Rightarrow> (Inl t, s)
      | Inr str \<Rightarrow> (Inl (Error (prefix @ str)), s))"

subsection \<open>Fields and getters without effect\<close>

text \<open>
  Reading a property that the object does not have yields \<open>undefined\<close>. The discriminant
  getters return the constants written in each class.
\<close>

fun prop_value :: "obj \<Rightarrow> jsval" where
  "prop_value (OptionSome v) = v"
| "prop_value OptionNone = JUndefined"
| "prop_value (ResultOk v) = v"
| "prop_value (ResultErr e) = JUndefined"

fun prop_error :: "obj \<Rightarrow> jsval" where
  "prop_error (OptionSome v) = JUndefined"
| "prop_error OptionNone = JUndefined"
| "prop_error (ResultOk v) = JUndefined"
| "prop_error (ResultErr e) = e"

fun prop_some :: "obj \<Rightarrow> jsval" where
  "prop_some (OptionSome v) = JBool True"
| "prop_some OptionNone = JBool False"
| "prop_some (ResultOk v) = JUndefined"
| "prop_some (ResultErr e) = JUndefined"

fun prop_none :: "obj \<Rightarrow> jsval" where
  "prop_none (OptionSome v) = JBool False"
| "prop_none OptionNone = JBool True"
| "prop_none (ResultOk v) = JUndefined"
| "prop_none (ResultErr e) = JUndefined"

fun prop_ok :: "obj \<Rightarrow> jsval" where
  "prop_ok (OptionSome v) = JUndefined"
| "prop_ok OptionNone = JUndefined"
| "prop_ok (ResultOk v) = JBool True"
| "prop_ok (ResultErr e) = JBool False"

fun prop_err :: "obj \<Rightarrow> jsval" where
  "prop_err (OptionSome v) = JUndefined"
| "prop_err OptionNone = JUndefined"
| "prop_err (ResultOk v) = JBool False"
| "prop_err (ResultErr e) = JBool True"

fun prop_valid :: "obj \<Rightarrow> jsval" where
  "prop_valid (OptionSome v) = JUndefined"
| "prop_valid OptionNone = JUndefined"
| "prop_valid (ResultOk v) = JUndefined"
| "prop_valid (ResultErr e) = JBool False"

text \<open>
  \<open>x.p\<close> for one of the properties above: a \<open>TypeError\<close> on \<open>undefined\<close> and \<open>null\<close>,
  \<open>undefined\<close> on the other primitives (none of them has a property of these names), the
  property of the object on a reference.
\<close>

fun read :: "(obj \<Rightarrow> jsval) \<Rightarrow> jsval \<Rightarrow> comp" where
  "read p JUndefined s = (Inl TypeError, s)"
| "read p JNull s = (Inl TypeError, s)"
| "read p (JRef a) s =
     (case lookup (heap s) a of
        Some ob \<Rightarrow> (Inr (p ob), s)
      | None \<Rightarrow> (Inr JUndefined, s))"
| "read p _ s = (Inr JUndefined, s)"

text \<open>\<open>this.value\<close> and \<open>this.error\<close> inside a method.\<close>

definition this_value :: "addr \<Rightarrow> state \<Rightarrow> jsval" where
  "this_value this s = (case lookup (heap s) this of Some ob \<Rightarrow> prop_value ob | None \<Rightarrow> JUndefined)"

definition this_error :: "addr \<Rightarrow> state \<Rightarrow> jsval" where
  "this_error this s = (case lookup (heap s) this of Some ob \<Rightarrow> prop_error ob | None \<Rightarrow> JUndefined)"

subsection \<open>The two families and the members of each class\<close>

text \<open>\<open>Option<T> = OptionSome<T> | OptionNone\<close> and \<open>Result<T, E> = ResultOk<T> | ResultErr<E>\<close>.\<close>

fun is_Option :: "obj \<Rightarrow> bool" where
  "is_Option (OptionSome v) = True"
| "is_Option OptionNone = True"
| "is_Option (ResultOk v) = False"
| "is_Option (ResultErr e) = False"

fun is_Result :: "obj \<Rightarrow> bool" where
  "is_Result (OptionSome v) = False"
| "is_Result OptionNone = False"
| "is_Result (ResultOk v) = True"
| "is_Result (ResultErr e) = True"

text \<open>The names each class declares (fields, getters and methods), in the order of the source.\<close>

fun members :: "obj \<Rightarrow> string list" where
  "members (OptionSome v) =
     [''value'', ''some'', ''none'', ''expect'', ''unwrap'', ''unwrap_or'', ''and_then'',
      ''or_else'', ''map'', ''compare'', ''to_result'']"
| "members OptionNone =
     [''some'', ''none'', ''expect'', ''unwrap'', ''unwrap_or'', ''and_then'', ''or_else'',
      ''map'', ''compare'', ''to_result'']"
| "members (ResultOk v) =
     [''value'', ''ok'', ''err'', ''expect'', ''expect_err'', ''unwrap'', ''unwrap_or'',
      ''and_then'', ''or_else'', ''map'', ''map_err'', ''compare'', ''to_option'']"
| "members (ResultErr e) =
     [''error'', ''valid'', ''ok'', ''err'', ''expect'', ''expect_err'', ''unwrap'',
      ''unwrap_or'', ''and_then'', ''or_else'', ''map'', ''map_err'', ''compare'',
      ''to_option'']"

text \<open>The names the interface \<open>ResultBase\<close> declares.\<close>

definition ResultBase_members :: "string list" where
  "ResultBase_members =
     [''ok'', ''err'', ''value'', ''error'', ''expect'', ''expect_err'', ''unwrap'',
      ''unwrap_or'', ''and_then'', ''or_else'', ''map'', ''map_err'', ''compare'',
      ''to_option'']"

section \<open>Option\<close>

text \<open>
  Each method of a class is one definition, named after the class and the method. It takes
  the address of \<open>this\<close> where the body mentions \<open>this\<close>, and the parameters the method
  declares.
\<close>

subsection \<open>class OptionSome\<close>

definition OptionSome_expect :: "addr \<Rightarrow> comp" where
  "OptionSome_expect this s = ret (this_value this s) s"

definition OptionSome_unwrap :: "addr \<Rightarrow> comp" where
  "OptionSome_unwrap this s = ret (this_value this s) s"

definition OptionSome_unwrap_or :: "addr \<Rightarrow> comp" where
  "OptionSome_unwrap_or this s = ret (this_value this s) s"

definition OptionSome_and_then :: "addr \<Rightarrow> fn \<Rightarrow> comp" where
  "OptionSome_and_then this mapper s = invoke mapper [this_value this s] s"

definition OptionSome_or_else :: "addr \<Rightarrow> comp" where
  "OptionSome_or_else this s = ret (JRef this) s"

definition OptionSome_map :: "addr \<Rightarrow> fn \<Rightarrow> comp" where
  "OptionSome_map this mapper s =
     then_do (invoke mapper [this_value this s]) (\<lambda>r. new (OptionSome r)) s"

text \<open>\<open>other.some && this.value === other.value\<close>, the left operand first.\<close>

definition OptionSome_compare :: "addr \<Rightarrow> jsval \<Rightarrow> comp" where
  "OptionSome_compare this other s =
     then_do (read prop_some other)
       (\<lambda>a. if truthy a
             then then_do (read prop_value other)
                    (\<lambda>w s'. ret (JBool (strict_eq (this_value this s') w)) s')
             else ret a) s"

definition OptionSome_to_result :: "addr \<Rightarrow> comp" where
  "OptionSome_to_result this s = new (ResultOk (this_value this s)) s"

subsection \<open>class OptionNone\<close>

definition OptionNone_expect :: "string \<Rightarrow> comp" where
  "OptionNone_expect msg s = throw (Error msg) s"

definition OptionNone_unwrap :: comp where
  "OptionNone_unwrap s = throw (Error ''Tried to unwrap None'') s"

definition OptionNone_unwrap_or :: "jsval \<Rightarrow> comp" where
  "OptionNone_unwrap_or val s = ret val s"

definition OptionNone_and_then :: "addr \<Rightarrow> comp" where
  "OptionNone_and_then this s = ret (JRef this) s"

definition OptionNone_or_else :: "fn \<Rightarrow> comp" where
  "OptionNone_or_else mapper s = invoke mapper [] s"

definition OptionNone_map :: "addr \<Rightarrow> comp" where
  "OptionNone_map this s = ret (JRef this) s"

definition OptionNone_compare :: "jsval \<Rightarrow> comp" where
  "OptionNone_compare other s = read prop_none other s"

definition OptionNone_to_result :: "jsval \<Rightarrow> comp" where
  "OptionNone_to_result error s = new (ResultErr error) s"

section \<open>Result\<close>

subsection \<open>class ResultOk\<close>

definition ResultOk_expect :: "addr \<Rightarrow> comp" where
  "ResultOk_expect this s = ret (this_value this s) s"

definition ResultOk_expect_err :: "string \<Rightarrow> comp" where
  "ResultOk_expect_err msg s = throw (Error msg) s"

definition ResultOk_unwrap :: "addr \<Rightarrow> comp" where
  "ResultOk_unwrap this s = ret (this_value this s) s"

definition ResultOk_unwrap_or :: "addr \<Rightarrow> comp" where
  "ResultOk_unwrap_or this s = ret (this_value this s) s"

definition ResultOk_and_then :: "addr \<Rightarrow> fn \<Rightarrow> comp" where
  "ResultOk_and_then this mapper s = invoke mapper [this_value this s] s"

definition ResultOk_or_else :: "addr \<Rightarrow> comp" where
  "ResultOk_or_else this s = ret (JRef this) s"

definition ResultOk_map :: "addr \<Rightarrow> fn \<Rightarrow> comp" where
  "ResultOk_map this func s =
     then_do (invoke func [this_value this s]) (\<lambda>r. new (ResultOk r)) s"

definition ResultOk_map_err :: "addr \<Rightarrow> comp" where
  "ResultOk_map_err this s = ret (JRef this) s"

text \<open>\<open>other.ok && this.value === other.value\<close>.\<close>

definition ResultOk_compare :: "addr \<Rightarrow> jsval \<Rightarrow> comp" where
  "ResultOk_compare this other s =
     then_do (read prop_ok other)
       (\<lambda>a. if truthy a
             then then_do (read prop_value other)
                    (\<lambda>w s'. ret (JBool (strict_eq (this_value this s') w)) s')
             else ret a) s"

definition ResultOk_to_option :: "addr \<Rightarrow> comp" where
  "ResultOk_to_option this s = new (OptionSome (this_value this s)) s"

subsection \<open>class ResultErr\<close>

text \<open>\<open>throw new Error(msg + "\nOriginal " + this.error)\<close>.\<close>

definition ResultErr_expect :: "addr \<Rightarrow> string \<Rightarrow> comp" where
  "ResultErr_expect this msg s =
     throw_concat (msg @ [CHR 0x0A] @ ''Original '') (this_error this s) s"

definition ResultErr_expect_err :: "addr \<Rightarrow> comp" where
  "ResultErr_expect_err this s = ret (this_error this s) s"

text \<open>\<open>throw new Error("Tried to unwrap Error\nOriginal " + this.error)\<close>.\<close>

definition ResultErr_unwrap :: "addr \<Rightarrow> comp" where
  "ResultErr_unwrap this s =
     throw_concat (''Tried to unwrap Error'' @ [CHR 0x0A] @ ''Original '') (this_error this s) s"

definition ResultErr_unwrap_or :: "jsval \<Rightarrow> comp" where
  "ResultErr_unwrap_or val s = ret val s"

definition ResultErr_and_then :: "addr \<Rightarrow> comp" where
  "ResultErr_and_then this s = ret (JRef this) s"

definition ResultErr_or_else :: "addr \<Rightarrow> fn \<Rightarrow> comp" where
  "ResultErr_or_else this mapper s = invoke mapper [this_error this s] s"

definition ResultErr_map :: "addr \<Rightarrow> comp" where
  "ResultErr_map this s = ret (JRef this) s"

definition ResultErr_map_err :: "addr \<Rightarrow> fn \<Rightarrow> comp" where
  "ResultErr_map_err this mapper s =
     then_do (invoke mapper [this_error this s]) (\<lambda>r. new (ResultErr r)) s"

text \<open>\<open>other.err && this.error === other.error\<close>.\<close>

definition ResultErr_compare :: "addr \<Rightarrow> jsval \<Rightarrow> comp" where
  "ResultErr_compare this other s =
     then_do (read prop_err other)
       (\<lambda>a. if truthy a
             then then_do (read prop_error other)
                    (\<lambda>w s'. ret (JBool (strict_eq (this_error this s') w)) s')
             else ret a) s"

definition ResultErr_to_option :: comp where
  "ResultErr_to_option s = new OptionNone s"

section \<open>The exported constructors\<close>

definition ok :: "jsval \<Rightarrow> comp" where
  "ok v s = new (ResultOk v) s"

definition err :: "jsval \<Rightarrow> comp" where
  "err e s = new (ResultErr e) s"

definition some :: "jsval \<Rightarrow> comp" where
  "some v s = new (OptionSome v) s"

definition none :: comp where
  "none s = new OptionNone s"

section \<open>Method calls\<close>

text \<open>
  \<open>x.m(args)\<close> runs the method \<open>m\<close> of the class of \<open>x\<close>; arguments the method does not
  declare are dropped. Where \<open>x\<close> is not an object, or its class has no method \<open>m\<close>, the
  call raises a \<open>TypeError\<close>.
\<close>

fun expect :: "jsval \<Rightarrow> string \<Rightarrow> comp" where
  "expect (JRef this) msg s =
     (case lookup (heap s) this of
        Some (OptionSome _) \<Rightarrow> OptionSome_expect this s
      | Some OptionNone \<Rightarrow> OptionNone_expect msg s
      | Some (ResultOk _) \<Rightarrow> ResultOk_expect this s
      | Some (ResultErr _) \<Rightarrow> ResultErr_expect this msg s
      | None \<Rightarrow> throw TypeError s)"
| "expect _ msg s = throw TypeError s"

fun expect_err :: "jsval \<Rightarrow> string \<Rightarrow> comp" where
  "expect_err (JRef this) msg s =
     (case lookup (heap s) this of
        Some (ResultOk _) \<Rightarrow> ResultOk_expect_err msg s
      | Some (ResultErr _) \<Rightarrow> ResultErr_expect_err this s
      | _ \<Rightarrow> throw TypeError s)"
| "expect_err _ msg s = throw TypeError s"

fun unwrap_or :: "jsval \<Rightarrow> jsval \<Rightarrow> comp" where
  "unwrap_or (JRef this) val s =
     (case lookup (heap s) this of
        Some (OptionSome _) \<Rightarrow> OptionSome_unwrap_or this s
      | Some OptionNone \<Rightarrow> OptionNone_unwrap_or val s
      | Some (ResultOk _) \<Rightarrow> ResultOk_unwrap_or this s
      | Some (ResultErr _) \<Rightarrow> ResultErr_unwrap_or val s
      | None \<Rightarrow> throw TypeError s)"
| "unwrap_or _ val s = throw TypeError s"

fun and_then :: "jsval \<Rightarrow> fn \<Rightarrow> comp" where
  "and_then (JRef this) mapper s =
     (case lookup (heap s) this of
        Some (OptionSome _) \<Rightarrow> OptionSome_and_then this mapper s
      | Some OptionNone \<Rightarrow> OptionNone_and_then this s
      | Some (ResultOk _) \<Rightarrow> ResultOk_and_then this mapper s
      | Some (ResultErr _) \<Rightarrow> ResultErr_and_then this s
      | None \<Rightarrow> throw TypeError s)"
| "and_then _ mapper s = throw TypeError s"

fun or_else :: "jsval \<Rightarrow> fn \<Rightarrow> comp" where
  "or_else (JRef this) mapper s =
     (case lookup (heap s) this of
        Some (OptionSome _) \<Rightarrow> OptionSome_or_else this s
      | Some OptionNone \<Rightarrow> OptionNone_or_else mapper s
      | Some (ResultOk _) \<Rightarrow> ResultOk_or_else this s
      | Some (ResultErr _) \<Rightarrow> ResultErr_or_else this mapper s
      | None \<Rightarrow> throw TypeError s)"
| "or_else _ mapper s = throw TypeError s"

fun map_js :: "jsval \<Rightarrow> fn \<Rightarrow> comp" where
  "map_js (JRef this) mapper s =
     (case lookup (heap s) this of
        Some (OptionSome _) \<Rightarrow> OptionSome_map this mapper s
      | Some OptionNone \<Rightarrow> OptionNone_map this s
      | Some (ResultOk _) \<Rightarrow> ResultOk_map this mapper s
      | Some (ResultErr _) \<Rightarrow> ResultErr_map this s
      | None \<Rightarrow> throw TypeError s)"
| "map_js _ mapper s = throw TypeError s"

fun map_err :: "jsval \<Rightarrow> fn \<Rightarrow> comp" where
  "map_err (JRef this) mapper s =
     (case lookup (heap s) this of
        Some (ResultOk _) \<Rightarrow> ResultOk_map_err this s
      | Some (ResultErr _) \<Rightarrow> ResultErr_map_err this mapper s
      | _ \<Rightarrow> throw TypeError s)"
| "map_err _ mapper s = throw TypeError s"

fun compare :: "jsval \<Rightarrow> jsval \<Rightarrow> comp" where
  "compare (JRef this) other s =
     (case lookup (heap s) this of
        Some (OptionSome _) \<Rightarrow> OptionSome_compare this other s
      | Some OptionNone \<Rightarrow> OptionNone_compare other s
      | Some (ResultOk _) \<Rightarrow> ResultOk_compare this other s
      | Some (ResultErr _) \<Rightarrow> ResultErr_compare this other s
      | None \<Rightarrow> throw TypeError s)"
| "compare _ other s = throw TypeError s"

fun to_result :: "jsval \<Rightarrow> jsval \<Rightarrow> comp" where
  "to_result (JRef this) error s =
     (case lookup (heap s) this of
        Some (OptionSome _) \<Rightarrow> OptionSome_to_result this s
      | Some OptionNone \<Rightarrow> OptionNone_to_result error s
      | _ \<Rightarrow> throw TypeError s)"
| "to_result _ error s = throw TypeError s"

text \<open>
  \<open>unwrap\<close> and \<open>to_option\<close> are getters, run by the property read \<open>x.unwrap\<close>: reading them
  from a value that has no such property yields \<open>undefined\<close>.
\<close>

fun unwrap :: "jsval \<Rightarrow> comp" where
  "unwrap (JRef this) s =
     (case lookup (heap s) this of
        Some (OptionSome _) \<Rightarrow> OptionSome_unwrap this s
      | Some OptionNone \<Rightarrow> OptionNone_unwrap s
      | Some (ResultOk _) \<Rightarrow> ResultOk_unwrap this s
      | Some (ResultErr _) \<Rightarrow> ResultErr_unwrap this s
      | None \<Rightarrow> ret JUndefined s)"
| "unwrap JUndefined s = throw TypeError s"
| "unwrap JNull s = throw TypeError s"
| "unwrap _ s = ret JUndefined s"

fun to_option :: "jsval \<Rightarrow> comp" where
  "to_option (JRef this) s =
     (case lookup (heap s) this of
        Some (ResultOk _) \<Rightarrow> ResultOk_to_option this s
      | Some (ResultErr _) \<Rightarrow> ResultErr_to_option s
      | _ \<Rightarrow> ret JUndefined s)"
| "to_option JUndefined s = throw TypeError s"
| "to_option JNull s = throw TypeError s"
| "to_option _ s = ret JUndefined s"

section \<open>States of the tests\<close>

text \<open>
  The instances the tests build with \<open>some(42)\<close>, \<open>none()\<close>, \<open>ok(42)\<close> and \<open>err(42)\<close>, two
  of each, as the comparison tests need them.
\<close>

definition tests_state :: state where
  "tests_state =
     \<lparr>heap = [OptionSome (JNum 42), OptionSome (JNum 42), OptionNone, OptionNone,
              ResultOk (JNum 42), ResultOk (JNum 42), ResultErr (JNum 42), ResultErr (JNum 42)],
      calls = []\<rparr>"

text \<open>
  Containers whose payloads are objects: the instances at 0 and 1 are two objects with the
  same content, and they are the payloads of the three pairs that follow.
\<close>

definition nested_state :: state where
  "nested_state =
     \<lparr>heap = [OptionSome (JNum 1), OptionSome (JNum 1),
              OptionSome (JRef 0), OptionSome (JRef 1),
              ResultOk (JRef 0), ResultOk (JRef 1),
              ResultErr (JRef 0), ResultErr (JRef 1)],
      calls = []\<rparr>"

section \<open>Auxiliary facts\<close>

lemmas run_defs = then_do_def new_def ret_def throw_def this_value_def this_error_def

lemma strict_eq_iff: "strict_eq v w = (v = w \<and> v \<noteq> JNaN)"
  by (cases v; cases w) auto

lemma invoke_returns:
  "f args (heap s) = (Inr r, h') \<Longrightarrow>
   invoke f args s = (Inr r, \<lparr>heap = h', calls = calls s @ [args]\<rparr>)"
  by (simp add: invoke_def)

lemma compare_Some:
  "lookup (heap s) a = Some (OptionSome v) \<Longrightarrow> lookup (heap s) b = Some y \<Longrightarrow>
   compare (JRef a) (JRef b) s =
     (Inr (case y of OptionSome w \<Rightarrow> JBool (v = w \<and> v \<noteq> JNaN) | OptionNone \<Rightarrow> JBool False
           | _ \<Rightarrow> JUndefined), s)"
  by (cases y) (simp_all add: OptionSome_compare_def run_defs strict_eq_iff)

lemma compare_None:
  "lookup (heap s) a = Some OptionNone \<Longrightarrow> lookup (heap s) b = Some y \<Longrightarrow>
   compare (JRef a) (JRef b) s = (Inr (prop_none y), s)"
  by (simp add: OptionNone_compare_def)

lemma compare_Ok:
  "lookup (heap s) a = Some (ResultOk v) \<Longrightarrow> lookup (heap s) b = Some y \<Longrightarrow>
   compare (JRef a) (JRef b) s =
     (Inr (case y of ResultOk w \<Rightarrow> JBool (v = w \<and> v \<noteq> JNaN) | ResultErr w \<Rightarrow> JBool False
           | _ \<Rightarrow> JUndefined), s)"
  by (cases y) (simp_all add: ResultOk_compare_def run_defs strict_eq_iff)

lemma compare_Err:
  "lookup (heap s) a = Some (ResultErr v) \<Longrightarrow> lookup (heap s) b = Some y \<Longrightarrow>
   compare (JRef a) (JRef b) s =
     (Inr (case y of ResultErr w \<Rightarrow> JBool (v = w \<and> v \<noteq> JNaN) | ResultOk w \<Rightarrow> JBool False
           | _ \<Rightarrow> JUndefined), s)"
  by (cases y) (simp_all add: ResultErr_compare_def run_defs strict_eq_iff)

lemma compare_returns:
  assumes "lookup (heap s) a = Some x" and "lookup (heap s) b = Some y"
  shows "\<exists>r. compare (JRef a) (JRef b) s = (Inr r, s)"
  using assms
  by (cases x)
     (simp_all add: OptionSome_compare_def OptionNone_compare_def ResultOk_compare_def
        ResultErr_compare_def then_do_def ret_def)

section \<open>Properties\<close>

subsection \<open>Combinators on the inactive variant\<close>

text \<open>
  C1. A combinator called on its inactive variant (\<open>and_then\<close> and \<open>map\<close> on \<open>OptionNone\<close>
  and on \<open>ResultErr\<close>, \<open>map_err\<close> and \<open>or_else\<close> on \<open>ResultOk\<close>, \<open>or_else\<close> on
  \<open>OptionSome\<close>) returns the reference of the receiver itself, for every supplied function,
  and leaves the state as it was: the heap is unchanged and no call is logged, so the
  function is not invoked.
\<close>

theorem inactive_variant_returns_this:
  "(lookup (heap s) a = Some OptionNone \<longrightarrow>
      and_then (JRef a) f s = (Inr (JRef a), s) \<and> map_js (JRef a) f s = (Inr (JRef a), s))
 \<and> (lookup (heap s) b = Some (ResultErr e) \<longrightarrow>
      and_then (JRef b) f s = (Inr (JRef b), s) \<and> map_js (JRef b) f s = (Inr (JRef b), s))
 \<and> (lookup (heap s) c = Some (ResultOk v) \<longrightarrow>
      map_err (JRef c) f s = (Inr (JRef c), s) \<and> or_else (JRef c) f s = (Inr (JRef c), s))
 \<and> (lookup (heap s) d = Some (OptionSome w) \<longrightarrow>
      or_else (JRef d) f s = (Inr (JRef d), s))"
  by (simp add: OptionNone_and_then_def OptionNone_map_def ResultErr_and_then_def
      ResultErr_map_def ResultOk_map_err_def ResultOk_or_else_def OptionSome_or_else_def
      ret_def)

text \<open>
  The four instances of the tests, and a function that throws when it is called: no call
  throws, each returns its receiver.
\<close>

theorem inactive_variant_returns_this_witness:
  "(let s = \<lparr>heap = [OptionNone, ResultErr (JNum 42), ResultOk (JNum 42), OptionSome (JNum 42)],
             calls = []\<rparr>;
        f = (\<lambda>args h. (Inl (Error ''mapper called''), h))
    in lookup (heap s) 0 = Some OptionNone
     \<and> lookup (heap s) 1 = Some (ResultErr (JNum 42))
     \<and> lookup (heap s) 2 = Some (ResultOk (JNum 42))
     \<and> lookup (heap s) 3 = Some (OptionSome (JNum 42))
     \<and> and_then (JRef 0) f s = (Inr (JRef 0), s)
     \<and> map_js (JRef 0) f s = (Inr (JRef 0), s)
     \<and> and_then (JRef 1) f s = (Inr (JRef 1), s)
     \<and> map_js (JRef 1) f s = (Inr (JRef 1), s)
     \<and> map_err (JRef 2) f s = (Inr (JRef 2), s)
     \<and> or_else (JRef 2) f s = (Inr (JRef 2), s)
     \<and> or_else (JRef 3) f s = (Inr (JRef 3), s))"
  using inactive_variant_returns_this [of
     "\<lparr>heap = [OptionNone, ResultErr (JNum 42), ResultOk (JNum 42), OptionSome (JNum 42)],
       calls = []\<rparr>"
     0 "\<lambda>args h. (Inl (Error ''mapper called''), h)" 1 "JNum 42" 2 "JNum 42" 3 "JNum 42"]
  by (simp add: lookup_def)

subsection \<open>Conversions between the two families\<close>

text \<open>
  C2, as the code has it. \<open>some(v).to_result(e).to_option.compare(some(v))\<close> runs without
  failure for every \<open>v\<close> and \<open>e\<close>, and its value is \<open>true\<close> for every \<open>v\<close> other than
  \<open>NaN\<close> (for \<open>NaN\<close> it is \<open>false\<close>, since the payloads are compared with \<open>===\<close>);
  \<open>none().to_result(e)\<close> is a new \<open>ResultErr\<close> holding \<open>e\<close>.
\<close>

theorem option_round_trip:
  "then_do (some v) (\<lambda>p. then_do (to_result p e) (\<lambda>r. then_do (to_option r)
     (\<lambda>opt. then_do (some v) (\<lambda>q. compare opt q)))) s
   = (Inr (JBool (v \<noteq> JNaN)),
      s\<lparr>heap := heap s @ [OptionSome v, ResultOk v, OptionSome v, OptionSome v]\<rparr>)
 \<and> then_do none (\<lambda>n. to_result n e) s
   = (Inr (JRef (Suc (length (heap s)))), s\<lparr>heap := heap s @ [OptionNone, ResultErr e]\<rparr>)"
  by (simp add: run_defs some_def none_def OptionSome_to_result_def OptionNone_to_result_def
      ResultOk_to_option_def OptionSome_compare_def lookup_def nth_append strict_eq_iff)

text \<open>C2 as stated fails at \<open>v = NaN\<close>: the round trip of \<open>some(NaN)\<close> compares \<open>false\<close>.\<close>

theorem option_round_trip_nan:
  "fst (then_do (some JNaN) (\<lambda>p. then_do (to_result p (JStr ''e'')) (\<lambda>r. then_do (to_option r)
     (\<lambda>opt. then_do (some JNaN) (\<lambda>q. compare opt q)))) init) = Inr (JBool False)"
  by (simp add: run_defs init_def some_def OptionSome_to_result_def
      ResultOk_to_option_def OptionSome_compare_def lookup_def nth_append)

text \<open>
  C7, as the code has it. \<open>ok(v).to_option.compare(some(v))\<close> runs without failure and is
  \<open>true\<close> for every \<open>v\<close> other than \<open>NaN\<close> (\<open>false\<close> for \<open>NaN\<close>); \<open>err(e).to_option\<close> is a
  new \<open>OptionNone\<close>, which holds nothing of \<open>e\<close>, and its \<open>none\<close> is \<open>true\<close>.
\<close>

theorem result_to_option:
  "then_do (ok v) (\<lambda>r. then_do (to_option r) (\<lambda>opt. then_do (some v) (\<lambda>q. compare opt q))) s
   = (Inr (JBool (v \<noteq> JNaN)), s\<lparr>heap := heap s @ [ResultOk v, OptionSome v, OptionSome v]\<rparr>)
 \<and> then_do (err e) (\<lambda>r. then_do (to_option r) (read prop_none)) s
   = (Inr (JBool True), s\<lparr>heap := heap s @ [ResultErr e, OptionNone]\<rparr>)"
  by (simp add: run_defs ok_def err_def some_def ResultErr_to_option_def
      ResultOk_to_option_def OptionSome_compare_def lookup_def nth_append strict_eq_iff)

text \<open>C7 as stated fails at \<open>v = NaN\<close>: \<open>ok(NaN).to_option.compare(some(NaN))\<close> is \<open>false\<close>.\<close>

theorem result_to_option_nan:
  "fst (then_do (ok JNaN) (\<lambda>r. then_do (to_option r)
     (\<lambda>opt. then_do (some JNaN) (\<lambda>q. compare opt q))) init) = Inr (JBool False)"
  by (simp add: run_defs init_def ok_def some_def
      ResultOk_to_option_def OptionSome_compare_def lookup_def nth_append)

subsection \<open>Discriminants\<close>

text \<open>
  C3. Every object of the heap, in every state, belongs to one of the two families. On an
  instance of \<open>Option\<close> the getters \<open>some\<close> and \<open>none\<close> return two booleans of which exactly
  one is \<open>true\<close>; on an instance of \<open>Result\<close> the getters \<open>ok\<close> and \<open>err\<close> do. Reading them
  changes nothing.
\<close>

theorem discriminants_exclusive:
  "lookup (heap s) a = Some ob \<Longrightarrow>
     (is_Option ob \<longrightarrow>
        (\<exists>b. read prop_some (JRef a) s = (Inr (JBool b), s)
           \<and> read prop_none (JRef a) s = (Inr (JBool (\<not> b)), s)))
   \<and> (is_Result ob \<longrightarrow>
        (\<exists>b. read prop_ok (JRef a) s = (Inr (JBool b), s)
           \<and> read prop_err (JRef a) s = (Inr (JBool (\<not> b)), s)))
   \<and> (is_Option ob \<or> is_Result ob)"
  by (cases ob) auto

theorem discriminants_exclusive_witness:
  "(\<exists>b. read prop_some (JRef 0) tests_state = (Inr (JBool b), tests_state)
       \<and> read prop_none (JRef 0) tests_state = (Inr (JBool (\<not> b)), tests_state))
 \<and> (\<exists>b. read prop_some (JRef 2) tests_state = (Inr (JBool b), tests_state)
       \<and> read prop_none (JRef 2) tests_state = (Inr (JBool (\<not> b)), tests_state))
 \<and> (\<exists>b. read prop_ok (JRef 4) tests_state = (Inr (JBool b), tests_state)
       \<and> read prop_err (JRef 4) tests_state = (Inr (JBool (\<not> b)), tests_state))
 \<and> (\<exists>b. read prop_ok (JRef 6) tests_state = (Inr (JBool b), tests_state)
       \<and> read prop_err (JRef 6) tests_state = (Inr (JBool (\<not> b)), tests_state))"
proof -
  have l: "lookup (heap tests_state) 0 = Some (OptionSome (JNum 42))"
    "lookup (heap tests_state) 2 = Some OptionNone"
    "lookup (heap tests_state) 4 = Some (ResultOk (JNum 42))"
    "lookup (heap tests_state) 6 = Some (ResultErr (JNum 42))"
    by (simp_all add: tests_state_def lookup_def)
  show ?thesis
    using l(1) [THEN discriminants_exclusive] l(2) [THEN discriminants_exclusive]
      l(3) [THEN discriminants_exclusive] l(4) [THEN discriminants_exclusive]
    by simp
qed

subsection \<open>Equality of containers\<close>

text \<open>
  C5, as the code has it. On two containers \<open>compare\<close> never fails and does not depend on
  the order of the two. On two instances of one variant it is \<open>true\<close> exactly when the
  payloads are strictly equal (\<open>===\<close>): the same value, and not \<open>NaN\<close>; two \<open>OptionNone\<close>
  are equal. On \<open>OptionSome\<close> against \<open>OptionNone\<close> and on \<open>ResultOk\<close> against \<open>ResultErr\<close>,
  in either order, it is \<open>false\<close>.
\<close>

theorem compare_strict:
  assumes "lookup (heap s) a = Some x" and "lookup (heap s) b = Some y"
  shows "(x = OptionSome v \<and> y = OptionSome w \<longrightarrow>
            compare (JRef a) (JRef b) s = (Inr (JBool (v = w \<and> v \<noteq> JNaN)), s))
       \<and> (x = OptionNone \<and> y = OptionNone \<longrightarrow>
            compare (JRef a) (JRef b) s = (Inr (JBool True), s))
       \<and> (x = ResultOk v \<and> y = ResultOk w \<longrightarrow>
            compare (JRef a) (JRef b) s = (Inr (JBool (v = w \<and> v \<noteq> JNaN)), s))
       \<and> (x = ResultErr v \<and> y = ResultErr w \<longrightarrow>
            compare (JRef a) (JRef b) s = (Inr (JBool (v = w \<and> v \<noteq> JNaN)), s))
       \<and> (x = OptionSome v \<and> y = OptionNone \<or> x = OptionNone \<and> y = OptionSome w
          \<or> x = ResultOk v \<and> y = ResultErr w \<or> x = ResultErr v \<and> y = ResultOk w \<longrightarrow>
            compare (JRef a) (JRef b) s = (Inr (JBool False), s))
       \<and> compare (JRef a) (JRef b) s = compare (JRef b) (JRef a) s"
proof -
  have sym: "compare (JRef a) (JRef b) s = compare (JRef b) (JRef a) s"
    using assms
    by (cases x; cases y)
       (auto simp: compare_Some compare_None compare_Ok compare_Err simp del: compare.simps)
  show ?thesis
    using assms sym
    by (auto simp: compare_Some compare_None compare_Ok compare_Err simp del: compare.simps)
qed

text \<open>The comparisons of the tests: equal pairs, and the cross-variant pairs in both orders.\<close>

theorem compare_strict_witness:
  "compare (JRef 0) (JRef 1) tests_state = (Inr (JBool True), tests_state)
 \<and> compare (JRef 1) (JRef 0) tests_state = (Inr (JBool True), tests_state)
 \<and> compare (JRef 2) (JRef 3) tests_state = (Inr (JBool True), tests_state)
 \<and> compare (JRef 4) (JRef 5) tests_state = (Inr (JBool True), tests_state)
 \<and> compare (JRef 6) (JRef 7) tests_state = (Inr (JBool True), tests_state)
 \<and> compare (JRef 0) (JRef 2) tests_state = (Inr (JBool False), tests_state)
 \<and> compare (JRef 2) (JRef 0) tests_state = (Inr (JBool False), tests_state)
 \<and> compare (JRef 4) (JRef 6) tests_state = (Inr (JBool False), tests_state)
 \<and> compare (JRef 6) (JRef 4) tests_state = (Inr (JBool False), tests_state)"
proof -
  have l: "lookup (heap tests_state) 0 = Some (OptionSome (JNum 42))"
    "lookup (heap tests_state) 1 = Some (OptionSome (JNum 42))"
    "lookup (heap tests_state) 2 = Some OptionNone"
    "lookup (heap tests_state) 3 = Some OptionNone"
    "lookup (heap tests_state) 4 = Some (ResultOk (JNum 42))"
    "lookup (heap tests_state) 5 = Some (ResultOk (JNum 42))"
    "lookup (heap tests_state) 6 = Some (ResultErr (JNum 42))"
    "lookup (heap tests_state) 7 = Some (ResultErr (JNum 42))"
    by (simp_all add: tests_state_def lookup_def)
  show ?thesis
    using compare_strict [OF l(1) l(2), of "JNum 42" "JNum 42"]
      compare_strict [OF l(2) l(1), of "JNum 42" "JNum 42"]
      compare_strict [OF l(3) l(4)]
      compare_strict [OF l(5) l(6), of "JNum 42" "JNum 42"]
      compare_strict [OF l(7) l(8), of "JNum 42" "JNum 42"]
      compare_strict [OF l(1) l(3), of "JNum 42"]
      compare_strict [OF l(3) l(1), of _ "JNum 42"]
      compare_strict [OF l(5) l(7), of "JNum 42" "JNum 42"]
      compare_strict [OF l(7) l(5), of "JNum 42" "JNum 42"]
    by (simp del: compare.simps)
qed

text \<open>
  C5 as stated fails on a payload \<open>NaN\<close>: an \<open>OptionSome\<close> holding \<open>NaN\<close> compared with
  itself (one instance, hence the same variant and the same payload) yields \<open>false\<close>.
\<close>

theorem compare_nan_not_reflexive:
  "compare (JRef 0) (JRef 0) \<lparr>heap = [OptionSome JNaN], calls = []\<rparr>
   = (Inr (JBool False), \<lparr>heap = [OptionSome JNaN], calls = []\<rparr>)"
  by (simp add: lookup_def OptionSome_compare_def run_defs)

text \<open>
  C9. When the payloads of two \<open>OptionSome\<close>, two \<open>ResultOk\<close> or two \<open>ResultErr\<close> are
  objects, \<open>compare\<close> is \<open>true\<close> exactly when they are the same object: the result is
  decided by the two addresses, whatever the heap holds there, and the state (the call log
  included) is unchanged.
\<close>

theorem compare_by_identity:
  assumes "lookup (heap s) a = Some x" and "lookup (heap s) b = Some y"
    and "x = OptionSome (JRef p) \<and> y = OptionSome (JRef q)
       \<or> x = ResultOk (JRef p) \<and> y = ResultOk (JRef q)
       \<or> x = ResultErr (JRef p) \<and> y = ResultErr (JRef q)"
  shows "compare (JRef a) (JRef b) s = (Inr (JBool (p = q)), s)"
  using assms
  by (auto simp: compare_Some compare_Ok compare_Err simp del: compare.simps)

text \<open>
  The payloads at 0 and 1 are distinct objects with the same content, and their own
  \<open>compare\<close> method finds them equal; the containers that hold them are not equal.
\<close>

theorem compare_by_identity_witness:
  "lookup (heap nested_state) 0 = lookup (heap nested_state) 1
 \<and> compare (JRef 0) (JRef 1) nested_state = (Inr (JBool True), nested_state)
 \<and> compare (JRef 2) (JRef 3) nested_state = (Inr (JBool False), nested_state)
 \<and> compare (JRef 4) (JRef 5) nested_state = (Inr (JBool False), nested_state)
 \<and> compare (JRef 6) (JRef 7) nested_state = (Inr (JBool False), nested_state)
 \<and> compare (JRef 2) (JRef 2) nested_state = (Inr (JBool True), nested_state)"
proof -
  have l: "lookup (heap nested_state) 2 = Some (OptionSome (JRef 0))"
    "lookup (heap nested_state) 3 = Some (OptionSome (JRef 1))"
    "lookup (heap nested_state) 4 = Some (ResultOk (JRef 0))"
    "lookup (heap nested_state) 5 = Some (ResultOk (JRef 1))"
    "lookup (heap nested_state) 6 = Some (ResultErr (JRef 0))"
    "lookup (heap nested_state) 7 = Some (ResultErr (JRef 1))"
    by (simp_all add: nested_state_def lookup_def)
  have p: "lookup (heap nested_state) 0 = Some (OptionSome (JNum 1))"
    "lookup (heap nested_state) 1 = Some (OptionSome (JNum 1))"
    by (simp_all add: nested_state_def lookup_def)
  have own: "compare (JRef 0) (JRef 1) nested_state = (Inr (JBool True), nested_state)"
    using compare_Some [OF p] by simp
  show ?thesis
    using own p compare_by_identity [OF l(1) l(2), of 0 1]
      compare_by_identity [OF l(3) l(4), of 0 1]
      compare_by_identity [OF l(5) l(6), of 0 1]
      compare_by_identity [OF l(1) l(1), of 0 0]
    by (simp del: compare.simps)
qed

subsection \<open>Failing accessors\<close>

text \<open>
  C6, as the code has it. On an \<open>OptionNone\<close> the accessors that return the value fail:
  \<open>expect(m)\<close> throws an \<open>Error\<close> whose message is \<open>m\<close> and \<open>unwrap\<close> throws an \<open>Error\<close>
  with the fixed message. Reading the field \<open>value\<close> does not fail: the class has no such
  field and the read yields \<open>undefined\<close>.
\<close>

theorem absent_value_access:
  assumes "lookup (heap s) a = Some OptionNone"
  shows "expect (JRef a) m s = (Inl (Error m), s)
       \<and> unwrap (JRef a) s = (Inl (Error ''Tried to unwrap None''), s)
       \<and> read prop_value (JRef a) s = (Inr JUndefined, s)"
  using assms by (simp add: OptionNone_expect_def OptionNone_unwrap_def throw_def)

theorem absent_value_access_witness:
  "expect (JRef 2) ''YOYO'' tests_state = (Inl (Error ''YOYO''), tests_state)
 \<and> unwrap (JRef 2) tests_state = (Inl (Error ''Tried to unwrap None''), tests_state)
 \<and> read prop_value (JRef 2) tests_state = (Inr JUndefined, tests_state)"
proof -
  have "lookup (heap tests_state) 2 = Some OptionNone"
    by (simp add: tests_state_def lookup_def)
  then show ?thesis
    by (rule absent_value_access)
qed

text \<open>
  C6 as stated fails: on the \<open>OptionNone\<close> of \<open>none()\<close> the read of \<open>value\<close> returns
  \<open>undefined\<close> and throws nothing.
\<close>

theorem absent_value_read_returns:
  "fst (then_do none (read prop_value) init) = Inr JUndefined"
  by (simp add: run_defs none_def init_def lookup_def)

text \<open>
  The accessors on the other variants, for C4: \<open>expect(m)\<close> and \<open>unwrap\<close> return the payload
  of an \<open>OptionSome\<close> and of a \<open>ResultOk\<close>, fail on \<open>OptionNone\<close> with the message \<open>m\<close> (or
  the fixed one), and always fail on \<open>ResultErr\<close>; where the error converts to a string,
  the message is \<open>m\<close> (or the fixed text), a line break, \<open>Original\<close> and that string.
\<close>

lemma expect_unwrap_cases:
  assumes "lookup (heap s) a = Some x"
  shows "(x = OptionSome v \<or> x = ResultOk v \<longrightarrow>
            expect (JRef a) m s = (Inr v, s) \<and> unwrap (JRef a) s = (Inr v, s))
       \<and> (x = OptionNone \<longrightarrow>
            expect (JRef a) m s = (Inl (Error m), s)
          \<and> unwrap (JRef a) s = (Inl (Error ''Tried to unwrap None''), s))
       \<and> (x = ResultErr e \<and> to_string e = Inr str \<longrightarrow>
            expect (JRef a) m s = (Inl (Error (m @ [CHR 0x0A] @ ''Original '' @ str)), s)
          \<and> unwrap (JRef a) s
              = (Inl (Error (''Tried to unwrap Error'' @ [CHR 0x0A] @ ''Original '' @ str)), s))
       \<and> (x = ResultErr e \<longrightarrow>
            (\<exists>t. expect (JRef a) m s = (Inl t, s)) \<and> (\<exists>t. unwrap (JRef a) s = (Inl t, s)))"
  using assms
  by (auto simp: OptionSome_expect_def OptionSome_unwrap_def ResultOk_expect_def
      ResultOk_unwrap_def OptionNone_expect_def OptionNone_unwrap_def ResultErr_expect_def
      ResultErr_unwrap_def throw_concat_def run_defs split: sum.splits)

lemma to_string_fails_iff: "(\<exists>t. to_string e = Inl t) = (\<exists>n. e = JSymbol n)"
  by (cases e) auto

text \<open>
  C4 at a \<open>ResultErr\<close> whose error is a symbol: the concatenation \<open>msg + "\nOriginal " +
  this.error\<close> raises a \<open>TypeError\<close> before the \<open>Error\<close> is built, so \<open>expect("boom")\<close> and
  \<open>unwrap\<close> fail with an exception that carries neither the message nor the error.
\<close>

theorem expect_symbol_error:
  "expect (JRef 0) ''boom'' \<lparr>heap = [ResultErr (JSymbol 0)], calls = []\<rparr>
   = (Inl TypeError, \<lparr>heap = [ResultErr (JSymbol 0)], calls = []\<rparr>)
 \<and> unwrap (JRef 0) \<lparr>heap = [ResultErr (JSymbol 0)], calls = []\<rparr>
   = (Inl TypeError, \<lparr>heap = [ResultErr (JSymbol 0)], calls = []\<rparr>)"
  by (simp add: lookup_def ResultErr_expect_def ResultErr_unwrap_def throw_concat_def
      this_error_def)

subsection \<open>Operations that do not fail\<close>

text \<open>
  C8. On a container, with a supplied function that returns on every call, \<open>map\<close>,
  \<open>and_then\<close>, \<open>or_else\<close> and \<open>compare\<close> (with another container) return a value, and so do
  \<open>to_result\<close> on an instance of \<open>Option\<close> and \<open>map_err\<close> and \<open>to_option\<close> on an instance of
  \<open>Result\<close>: none of them throws on any variant.
\<close>

theorem operations_total:
  assumes "lookup (heap s) a = Some x" and "lookup (heap s) b = Some y"
    and total: "\<forall>args h. \<exists>r h'. f args h = (Inr r, h')"
  shows "(\<exists>r s'. map_js (JRef a) f s = (Inr r, s'))
       \<and> (\<exists>r s'. and_then (JRef a) f s = (Inr r, s'))
       \<and> (\<exists>r s'. or_else (JRef a) f s = (Inr r, s'))
       \<and> (\<exists>r s'. compare (JRef a) (JRef b) s = (Inr r, s'))
       \<and> (is_Option x \<longrightarrow> (\<exists>r s'. to_result (JRef a) e s = (Inr r, s')))
       \<and> (is_Result x \<longrightarrow> (\<exists>r s'. map_err (JRef a) f s = (Inr r, s'))
                          \<and> (\<exists>r s'. to_option (JRef a) s = (Inr r, s')))"
proof -
  have call: "\<exists>r s'. invoke f args s = (Inr r, s')" for args
  proof -
    obtain r h' where "f args (heap s) = (Inr r, h')"
      using total by blast
    then show ?thesis
      by (simp add: invoke_returns)
  qed
  have wrap: "\<exists>r s'. then_do (invoke f args) (\<lambda>r. new (C r)) s = (Inr r, s')" for args C
    using call [of args] by (auto simp: then_do_def new_def)
  have cmp: "\<exists>r s'. compare (JRef a) (JRef b) s = (Inr r, s')"
    using compare_returns [OF assms(1,2)] by blast
  show ?thesis
    using assms(1) call wrap cmp
    by (cases x)
       (simp_all add: OptionSome_map_def OptionNone_map_def ResultOk_map_def ResultErr_map_def
          OptionSome_and_then_def OptionNone_and_then_def ResultOk_and_then_def
          ResultErr_and_then_def OptionSome_or_else_def OptionNone_or_else_def
          ResultOk_or_else_def ResultErr_or_else_def OptionSome_to_result_def
          OptionNone_to_result_def ResultOk_map_err_def ResultErr_map_err_def
          ResultOk_to_option_def ResultErr_to_option_def new_def ret_def
          del: compare.simps)
qed

text \<open>The four variants of the tests, with the function of the tests that returns \<open>"42"\<close>.\<close>

theorem operations_total_witness:
  "(let f = (\<lambda>args h. (Inr (JStr ''42''), h)); e = JStr ''YOYO''
    in (\<forall>args h. \<exists>r h'. f args h = (Inr r, h'))
     \<and> (\<exists>r s'. map_js (JRef 0) f tests_state = (Inr r, s'))
     \<and> (\<exists>r s'. and_then (JRef 0) f tests_state = (Inr r, s'))
     \<and> (\<exists>r s'. or_else (JRef 0) f tests_state = (Inr r, s'))
     \<and> (\<exists>r s'. compare (JRef 0) (JRef 2) tests_state = (Inr r, s'))
     \<and> (\<exists>r s'. to_result (JRef 0) e tests_state = (Inr r, s'))
     \<and> (\<exists>r s'. map_js (JRef 2) f tests_state = (Inr r, s'))
     \<and> (\<exists>r s'. and_then (JRef 2) f tests_state = (Inr r, s'))
     \<and> (\<exists>r s'. or_else (JRef 2) f tests_state = (Inr r, s'))
     \<and> (\<exists>r s'. compare (JRef 2) (JRef 0) tests_state = (Inr r, s'))
     \<and> (\<exists>r s'. to_result (JRef 2) e tests_state = (Inr r, s'))
     \<and> (\<exists>r s'. map_js (JRef 4) f tests_state = (Inr r, s'))
     \<and> (\<exists>r s'. and_then (JRef 4) f tests_state = (Inr r, s'))
     \<and> (\<exists>r s'. or_else (JRef 4) f tests_state = (Inr r, s'))
     \<and> (\<exists>r s'. compare (JRef 4) (JRef 6) tests_state = (Inr r, s'))
     \<and> (\<exists>r s'. map_err (JRef 4) f tests_state = (Inr r, s'))
     \<and> (\<exists>r s'. to_option (JRef 4) tests_state = (Inr r, s'))
     \<and> (\<exists>r s'. map_js (JRef 6) f tests_state = (Inr r, s'))
     \<and> (\<exists>r s'. and_then (JRef 6) f tests_state = (Inr r, s'))
     \<and> (\<exists>r s'. or_else (JRef 6) f tests_state = (Inr r, s'))
     \<and> (\<exists>r s'. compare (JRef 6) (JRef 4) tests_state = (Inr r, s'))
     \<and> (\<exists>r s'. map_err (JRef 6) f tests_state = (Inr r, s'))
     \<and> (\<exists>r s'. to_option (JRef 6) tests_state = (Inr r, s')))"
proof -
  have l: "lookup (heap tests_state) 0 = Some (OptionSome (JNum 42))"
    "lookup (heap tests_state) 2 = Some OptionNone"
    "lookup (heap tests_state) 4 = Some (ResultOk (JNum 42))"
    "lookup (heap tests_state) 6 = Some (ResultErr (JNum 42))"
    by (simp_all add: tests_state_def lookup_def)
  have t: "\<forall>args h. \<exists>r h'. (\<lambda>args h. (Inr (JStr ''42''), h)) args h = (Inr r, h')"
    by simp
  show ?thesis
    unfolding Let_def
    using t operations_total [OF l(1) l(2) t, of "JStr ''YOYO''"]
      operations_total [OF l(2) l(1) t, of "JStr ''YOYO''"]
      operations_total [OF l(3) l(4) t]
      operations_total [OF l(4) l(3) t]
    by (simp del: compare.simps map_js.simps and_then.simps or_else.simps to_result.simps
        map_err.simps to_option.simps)
qed

subsection \<open>The getter \<open>valid\<close>\<close>

text \<open>
  C10. \<open>ResultErr\<close> declares a getter \<open>valid\<close>, which returns \<open>false\<close> for every error;
  \<open>ResultOk\<close> declares no member of that name (reading it yields \<open>undefined\<close>), and neither
  does the interface \<open>ResultBase\<close>.
\<close>

theorem valid_only_on_ResultErr:
  "prop_valid (ResultErr e) = JBool False
 \<and> ''valid'' \<in> set (members (ResultErr e))
 \<and> prop_valid (ResultOk v) = JUndefined
 \<and> ''valid'' \<notin> set (members (ResultOk v))
 \<and> ''valid'' \<notin> set ResultBase_members"
  by (simp add: ResultBase_members_def)

end
